theory Spec2Isabelle
  imports Complex_Main
begin

section \<open>Numbers\<close>

text \<open>
  The physics modules compute on JavaScript numbers. Finite numbers are modelled as
  \<^typ>\<open>real\<close>: the arithmetic operators are exact, so their rounding and overflow are
  outside the model, and every argument of a solver is a finite number. \<open>Math.exp\<close> is
  not taken to be exact: see below.

  HOL's division is total with \<open>x / 0 = 0\<close>, whereas JavaScript yields an infinity or NaN.
  The two half-Atwood solvers divide by the total mass only after the guard
  \<open>totalMassKg <= 0\<close> has returned, so plain division is faithful there. The resonance
  functions divide by a quantity computed from their arguments; their quotient is a
  \<open>jsnum\<close>, which keeps the non-finite outcomes apart.
\<close>

datatype jsnum = Fin real | PosInf | NegInf | NaN

text \<open>\<open>x / y\<close> on finite operands; a zero divisor is the positive zero.\<close>

definition js_div :: "real \<Rightarrow> real \<Rightarrow> jsnum" where
  "js_div x y =
     (if y \<noteq> 0 then Fin (x / y)
      else if x = 0 then NaN
      else if 0 < x then PosInf
      else NegInf)"

text \<open>\<open>x - y\<close> with a finite right operand.\<close>

fun js_sub :: "jsnum \<Rightarrow> real \<Rightarrow> jsnum" where
  "js_sub (Fin x) y = Fin (x - y)"
| "js_sub PosInf y = PosInf"
| "js_sub NegInf y = NegInf"
| "js_sub NaN y = NaN"

text \<open>
  \<open>Math.exp\<close>. The language fixes its value at the infinities and at \<open>NaN\<close>; on a
  finite argument the result is the engine's double approximation of the exponential,
  which underflows to exactly 0 for arguments below about \<open>-745\<close> and rounds to exactly 1
  close to 0. That approximation is the parameter \<open>approx\<close>; what a theorem needs of it
  is a hypothesis of the theorem.
\<close>

fun Math_exp :: "(real \<Rightarrow> real) \<Rightarrow> jsnum \<Rightarrow> jsnum" where
  "Math_exp approx (Fin x) = Fin (approx x)"
| "Math_exp approx PosInf = PosInf"
| "Math_exp approx NegInf = Fin 0"
| "Math_exp approx NaN = NaN"

section \<open>Half-Atwood solver (halfAtwoodPhysics.js)\<close>

definition VELOCITY_EPSILON :: real where
  "VELOCITY_EPSILON = 1 / 10000"

datatype atwood_mode = Frictionless | Kinetic | Static_hold

text \<open>
  The argument objects of the two solvers share five fields; the from-rest solver reads
  \<open>targetDistanceM\<close> in addition, the dynamic solver \<open>velocityMps\<close>.
\<close>

record atwood_input =
  massTableKg :: real
  massHangingKg :: real
  mu :: real
  frictionEnabled :: bool
  gravity :: real

record rest_input = atwood_input +
  targetDistanceM :: real

record dynamic_input = atwood_input +
  velocityMps :: real

text \<open>
  Likewise the result objects: \<open>timeToTargetS\<close> is \<open>number|null\<close>, with \<open>None\<close> for
  \<open>null\<close>.
\<close>

record atwood_result =
  accelerationMps2 :: real
  tensionN :: real
  netForceN :: real
  driveForceN :: real
  mode :: atwood_mode

record rest_result = atwood_result +
  frictionN :: real
  moved :: bool
  timeToTargetS :: "real option"

record dynamic_result = atwood_result +
  frictionSignedN :: real
  frictionMagnitudeN :: real

definition calculateHalfAtwoodFromRest :: "rest_input \<Rightarrow> rest_result" where
  "calculateHalfAtwoodFromRest input =
     (let massTableKg = max 0 (massTableKg input);
          massHangingKg = max 0 (massHangingKg input);
          gravity = max 0 (gravity input);
          mu = max 0 (mu input);
          targetDistanceM = max 0 (targetDistanceM input);
          totalMassKg = massTableKg + massHangingKg;
          driveForceN = massHangingKg * gravity
      in
      if totalMassKg \<le> 0 then
        \<lparr>accelerationMps2 = 0, tensionN = 0, netForceN = 0, driveForceN = driveForceN,
         mode = Static_hold, frictionN = 0, moved = False, timeToTargetS = None\<rparr>
      else if \<not> frictionEnabled input \<or> mu = 0 then
        (let accelerationMps2 = driveForceN / totalMassKg;
             tensionN = massHangingKg * (gravity - accelerationMps2);
             timeToTargetS =
               (if 0 < accelerationMps2 \<and> 0 < targetDistanceM
                then Some (sqrt ((2 * targetDistanceM) / accelerationMps2))
                else None)
         in
         \<lparr>accelerationMps2 = accelerationMps2, tensionN = tensionN,
          netForceN = driveForceN, driveForceN = driveForceN, mode = Frictionless,
          frictionN = 0, moved = (0 < accelerationMps2), timeToTargetS = timeToTargetS\<rparr>)
      else
        (let frictionN = mu * massTableKg * gravity in
         if driveForceN \<le> frictionN then
           \<lparr>accelerationMps2 = 0, tensionN = driveForceN, netForceN = 0,
            driveForceN = driveForceN, mode = Static_hold, frictionN = driveForceN,
            moved = False, timeToTargetS = None\<rparr>
         else
           (let netForceN = driveForceN - frictionN;
                accelerationMps2 = netForceN / totalMassKg;
                tensionN = massHangingKg * (gravity - accelerationMps2);
                timeToTargetS =
                  (if 0 < accelerationMps2 \<and> 0 < targetDistanceM
                   then Some (sqrt ((2 * targetDistanceM) / accelerationMps2))
                   else None)
            in
            \<lparr>accelerationMps2 = accelerationMps2, tensionN = tensionN,
             netForceN = netForceN, driveForceN = driveForceN, mode = Kinetic,
             frictionN = frictionN, moved = (0 < accelerationMps2),
             timeToTargetS = timeToTargetS\<rparr>)))"

definition resolveDynamicForces :: "dynamic_input \<Rightarrow> dynamic_result" where
  "resolveDynamicForces input =
     (let massTableKg = max 0 (massTableKg input);
          massHangingKg = max 0 (massHangingKg input);
          gravity = max 0 (gravity input);
          mu = max 0 (mu input);
          totalMassKg = massTableKg + massHangingKg;
          driveForceN = massHangingKg * gravity
      in
      if totalMassKg \<le> 0 then
        \<lparr>accelerationMps2 = 0, tensionN = 0, netForceN = 0, driveForceN = driveForceN,
         mode = Static_hold, frictionSignedN = 0, frictionMagnitudeN = 0\<rparr>
      else if \<not> frictionEnabled input \<or> mu = 0 then
        (let accelerationMps2 = driveForceN / totalMassKg in
         \<lparr>accelerationMps2 = accelerationMps2,
          tensionN = massHangingKg * (gravity - accelerationMps2),
          netForceN = driveForceN, driveForceN = driveForceN, mode = Frictionless,
          frictionSignedN = 0, frictionMagnitudeN = 0\<rparr>)
      else
        (let kineticMagnitudeN = mu * massTableKg * gravity;
             speed = velocityMps input
         in
         if \<bar>speed\<bar> \<le> VELOCITY_EPSILON then
           (if driveForceN \<le> kineticMagnitudeN then
              \<lparr>accelerationMps2 = 0, tensionN = driveForceN, netForceN = 0,
               driveForceN = driveForceN, mode = Static_hold,
               frictionSignedN = - driveForceN, frictionMagnitudeN = driveForceN\<rparr>
            else
              (let netForceN = driveForceN - kineticMagnitudeN;
                   accelerationMps2 = netForceN / totalMassKg
               in
               \<lparr>accelerationMps2 = accelerationMps2,
                tensionN = massHangingKg * (gravity - accelerationMps2),
                netForceN = netForceN, driveForceN = driveForceN, mode = Kinetic,
                frictionSignedN = - kineticMagnitudeN,
                frictionMagnitudeN = kineticMagnitudeN\<rparr>))
         else
           (let frictionSignedN =
                  (if 0 < speed then - kineticMagnitudeN else kineticMagnitudeN);
                netForceN = driveForceN + frictionSignedN;
                accelerationMps2 = netForceN / totalMassKg
            in
            \<lparr>accelerationMps2 = accelerationMps2,
             tensionN = massHangingKg * (gravity - accelerationMps2),
             netForceN = netForceN, driveForceN = driveForceN, mode = Kinetic,
             frictionSignedN = frictionSignedN,
             frictionMagnitudeN = kineticMagnitudeN\<rparr>)))"

text \<open>
  The input of a solver as it stands after the clamps of its first lines: each clamped
  field replaced by \<open>Math.max(0, field)\<close>, the other fields untouched.
\<close>

definition clampRest :: "rest_input \<Rightarrow> rest_input" where
  "clampRest input =
     input\<lparr>massTableKg := max 0 (massTableKg input),
           massHangingKg := max 0 (massHangingKg input),
           gravity := max 0 (gravity input),
           mu := max 0 (mu input),
           targetDistanceM := max 0 (targetDistanceM input)\<rparr>"

definition clampDynamic :: "dynamic_input \<Rightarrow> dynamic_input" where
  "clampDynamic input =
     input\<lparr>massTableKg := max 0 (massTableKg input),
           massHangingKg := max 0 (massHangingKg input),
           gravity := max 0 (gravity input),
           mu := max 0 (mu input)\<rparr>"

section \<open>Resonance solver (resonancePhysics.js)\<close>

text \<open>
  Each function takes one object argument; its fields are the arguments of the model, in
  the order of the source's type annotation. The optional \<open>bandwidthM\<close> is an
  \<open>option\<close>, \<open>None\<close> when the field is absent. \<open>resonanceStrength\<close> takes the
  engine's \<open>Math.exp\<close> on finite numbers as its first argument.
\<close>

definition END_CORRECTION_FACTOR :: real where
  "END_CORRECTION_FACTOR = 3 / 10"

definition firstHarmonicAirLengthM :: "real \<Rightarrow> real \<Rightarrow> real \<Rightarrow> jsnum" where
  "firstHarmonicAirLengthM frequencyHz speedMps tubeDiameterM =
     (let effectiveLengthM = js_div speedMps (4 * frequencyHz)
      in js_sub effectiveLengthM (END_CORRECTION_FACTOR * tubeDiameterM))"

definition inferredSpeedMps :: "real \<Rightarrow> real \<Rightarrow> real \<Rightarrow> real" where
  "inferredSpeedMps frequencyHz airLengthM tubeDiameterM =
     4 * frequencyHz * (airLengthM + END_CORRECTION_FACTOR * tubeDiameterM)"

definition resonanceStrength ::
  "(real \<Rightarrow> real) \<Rightarrow> real \<Rightarrow> real \<Rightarrow> real option \<Rightarrow> jsnum" where
  "resonanceStrength approx airLengthM targetLengthM bandwidthOpt =
     (let bandwidthM =
            (case bandwidthOpt of
               Some b \<Rightarrow> b
             | None \<Rightarrow> max (8 / 1000) (targetLengthM * (6 / 100)));
          delta = airLengthM - targetLengthM;
          exponent = js_div (- (delta * delta)) (2 * bandwidthM * bandwidthM)
      in Math_exp approx exponent)"

record quality =
  label :: string
  accepted :: bool
  css :: string

definition qualityBand :: "real \<Rightarrow> quality" where
  "qualityBand strength =
     (if 94 / 100 \<le> strength then
        \<lparr>label = ''High'', accepted = True, css = ''good''\<rparr>
      else if 8 / 10 \<le> strength then
        \<lparr>label = ''Fair'', accepted = False, css = ''ok''\<rparr>
      else
        \<lparr>label = ''Off peak'', accepted = False, css = ''low''\<rparr>)"

section \<open>Half-Atwood solver: the regimes\<close>

text \<open>
  Claim C1. With friction enabled, \<open>mu > 0\<close>, a positive clamped total mass and
  \<open>|velocityMps| \<le> VELOCITY_EPSILON\<close>, \<open>resolveDynamicForces\<close> decides between static
  hold and kinetic friction as the from-rest solver does: if the drive force is at most
  \<open>mu * massTable * gravity\<close> the mode is \<open>static_hold\<close> with acceleration 0, net force 0,
  tension equal to the drive force and signed friction \<open>- driveForce\<close>; otherwise the mode
  is \<open>kinetic\<close> with signed friction \<open>- (mu * massTable * gravity)\<close>, net force
  \<open>driveForce - mu * massTable * gravity\<close> and acceleration \<open>netForce / totalMass\<close>. The
  result does not change when the near-zero velocity changes sign.
\<close>

theorem near_rest_redecides_static_or_kinetic:
  "frictionEnabled input \<Longrightarrow> 0 < mu input \<Longrightarrow>
   0 < max 0 (massTableKg input) + max 0 (massHangingKg input) \<Longrightarrow>
   \<bar>velocityMps input\<bar> \<le> VELOCITY_EPSILON \<Longrightarrow>
   (let totalMassKg = max 0 (massTableKg input) + max 0 (massHangingKg input);
        driveForce = max 0 (massHangingKg input) * max 0 (gravity input);
        kineticMagnitude = mu input * max 0 (massTableKg input) * max 0 (gravity input);
        r = resolveDynamicForces input
    in (if driveForce \<le> kineticMagnitude
        then mode r = Static_hold \<and> accelerationMps2 r = 0 \<and> netForceN r = 0 \<and>
             tensionN r = driveForce \<and> frictionSignedN r = - driveForce
        else mode r = Kinetic \<and> frictionSignedN r = - kineticMagnitude \<and>
             netForceN r = driveForce - kineticMagnitude \<and>
             accelerationMps2 r = netForceN r / totalMassKg) \<and>
       resolveDynamicForces (input\<lparr>velocityMps := - velocityMps input\<rparr>) = r)"
  by (auto simp add: resolveDynamicForces_def Let_def max_def)

theorem near_rest_redecides_static_or_kinetic_witness:
  "frictionEnabled \<lparr>massTableKg = 6, massHangingKg = 1, mu = 1 / 5, frictionEnabled = True,
      gravity = 10, velocityMps = - 1 / 20000\<rparr> \<and>
   \<bar>- 1 / 20000\<bar> \<le> VELOCITY_EPSILON \<and>
   mode (resolveDynamicForces \<lparr>massTableKg = 6, massHangingKg = 1, mu = 1 / 5,
      frictionEnabled = True, gravity = 10, velocityMps = - 1 / 20000\<rparr>) = Static_hold \<and>
   frictionSignedN (resolveDynamicForces \<lparr>massTableKg = 6, massHangingKg = 1, mu = 1 / 5,
      frictionEnabled = True, gravity = 10, velocityMps = - 1 / 20000\<rparr>) = - 10"
  using near_rest_redecides_static_or_kinetic
    [of "\<lparr>massTableKg = 6, massHangingKg = 1, mu = 1 / 5, frictionEnabled = True,
      gravity = 10, velocityMps = - 1 / 20000\<rparr>"]
  by (simp add: VELOCITY_EPSILON_def Let_def)

text \<open>
  Claim C2. For positive table mass, hanging mass and gravity, with friction disabled or
  \<open>mu = 0\<close>, \<open>calculateHalfAtwoodFromRest\<close> returns acceleration
  \<open>massHanging * gravity / (massHanging + massTable)\<close>, tension
  \<open>massHanging * (gravity - acceleration)\<close>, friction 0, net force and drive force
  \<open>massHanging * gravity\<close>, mode \<open>frictionless\<close> and \<open>moved = true\<close>. For
  \<open>massTable = 2\<close>, \<open>massHanging = 1\<close>, \<open>mu = 0\<close>, \<open>gravity = 10\<close> the acceleration
  is \<open>10/3\<close>, the tension \<open>20/3\<close> and the net force 10, whatever the friction flag and
  the target distance.
\<close>

theorem frictionless_from_rest_closed_form:
  "(0 < massTableKg input \<and> 0 < massHangingKg input \<and> 0 < gravity input \<and>
    (\<not> frictionEnabled input \<or> mu input = 0) \<longrightarrow>
    (let r = calculateHalfAtwoodFromRest input;
         a = massHangingKg input * gravity input / (massHangingKg input + massTableKg input)
     in accelerationMps2 r = a \<and>
        tensionN r = massHangingKg input * (gravity input - a) \<and>
        frictionN r = 0 \<and>
        netForceN r = massHangingKg input * gravity input \<and>
        driveForceN r = massHangingKg input * gravity input \<and>
        mode r = Frictionless \<and> moved r)) \<and>
   (let r = calculateHalfAtwoodFromRest
              \<lparr>massTableKg = 2, massHangingKg = 1, mu = 0, frictionEnabled = fe,
               gravity = 10, targetDistanceM = d\<rparr>
    in accelerationMps2 r = 10 / 3 \<and> tensionN r = 20 / 3 \<and> netForceN r = 10 \<and>
       mode r = Frictionless \<and> moved r)"
  by (auto simp add: calculateHalfAtwoodFromRest_def Let_def add.commute)

theorem frictionless_from_rest_closed_form_witness:
  "\<not> frictionEnabled \<lparr>massTableKg = 2, massHangingKg = 1, mu = 35 / 100,
      frictionEnabled = False, gravity = 10, targetDistanceM = 2\<rparr> \<and>
   accelerationMps2 (calculateHalfAtwoodFromRest \<lparr>massTableKg = 2, massHangingKg = 1,
      mu = 35 / 100, frictionEnabled = False, gravity = 10, targetDistanceM = 2\<rparr>) = 10 / 3 \<and>
   tensionN (calculateHalfAtwoodFromRest \<lparr>massTableKg = 2, massHangingKg = 1,
      mu = 35 / 100, frictionEnabled = False, gravity = 10, targetDistanceM = 2\<rparr>) = 20 / 3 \<and>
   moved (calculateHalfAtwoodFromRest \<lparr>massTableKg = 2, massHangingKg = 1,
      mu = 35 / 100, frictionEnabled = False, gravity = 10, targetDistanceM = 2\<rparr>)"
  using frictionless_from_rest_closed_form
    [of "\<lparr>massTableKg = 2, massHangingKg = 1, mu = 35 / 100, frictionEnabled = False,
      gravity = 10, targetDistanceM = 2\<rparr>" True 2]
  by (simp add: Let_def)

text \<open>
  Claim C3. With friction enabled, \<open>mu > 0\<close>, a positive clamped total mass and drive
  force \<open>massHanging * gravity \<le> mu * massTable * gravity\<close>,
  \<open>calculateHalfAtwoodFromRest\<close> returns mode \<open>static_hold\<close>, acceleration 0, tension and
  friction both equal to the drive force (the balancing force, not the Coulomb maximum),
  net force 0, \<open>moved = false\<close> and \<open>timeToTargetS = null\<close>. For \<open>massTable = 6\<close>,
  \<open>massHanging = 1\<close>, \<open>mu = 0.2\<close>, \<open>gravity = 10\<close> the friction is 10.
\<close>

theorem static_hold_from_rest:
  "(frictionEnabled input \<and> 0 < mu input \<and>
    0 < max 0 (massTableKg input) + max 0 (massHangingKg input) \<and>
    max 0 (massHangingKg input) * max 0 (gravity input)
      \<le> mu input * max 0 (massTableKg input) * max 0 (gravity input) \<longrightarrow>
    (let r = calculateHalfAtwoodFromRest input;
         driveForce = max 0 (massHangingKg input) * max 0 (gravity input)
     in mode r = Static_hold \<and> accelerationMps2 r = 0 \<and> tensionN r = driveForce \<and>
        frictionN r = driveForce \<and> netForceN r = 0 \<and> \<not> moved r \<and>
        timeToTargetS r = None)) \<and>
   frictionN (calculateHalfAtwoodFromRest
      \<lparr>massTableKg = 6, massHangingKg = 1, mu = 2 / 10, frictionEnabled = True,
       gravity = 10, targetDistanceM = d\<rparr>) = 10"
  by (simp add: calculateHalfAtwoodFromRest_def Let_def)

theorem static_hold_from_rest_witness:
  "frictionEnabled \<lparr>massTableKg = 6, massHangingKg = 1, mu = 2 / 10, frictionEnabled = True,
      gravity = 10, targetDistanceM = 2\<rparr> \<and>
   (1 :: real) * 10 \<le> 2 / 10 * 6 * 10 \<and>
   mode (calculateHalfAtwoodFromRest \<lparr>massTableKg = 6, massHangingKg = 1, mu = 2 / 10,
      frictionEnabled = True, gravity = 10, targetDistanceM = 2\<rparr>) = Static_hold \<and>
   frictionN (calculateHalfAtwoodFromRest \<lparr>massTableKg = 6, massHangingKg = 1, mu = 2 / 10,
      frictionEnabled = True, gravity = 10, targetDistanceM = 2\<rparr>) = 10 \<and>
   timeToTargetS (calculateHalfAtwoodFromRest \<lparr>massTableKg = 6, massHangingKg = 1,
      mu = 2 / 10, frictionEnabled = True, gravity = 10, targetDistanceM = 2\<rparr>) = None"
  using static_hold_from_rest
    [of "\<lparr>massTableKg = 6, massHangingKg = 1, mu = 2 / 10, frictionEnabled = True,
      gravity = 10, targetDistanceM = 2\<rparr>" 2]
  by (simp add: Let_def)

text \<open>
  Claim C4, as stated, for every mass pair and every gravity: with friction enabled,
  \<open>mu > 0\<close> and speed \<open>v > VELOCITY_EPSILON\<close>, the signed friction is negative for
  \<open>velocityMps = +v\<close>, positive for \<open>-v\<close>, and the leftward run accelerates strictly
  more. This fails when the table mass (or gravity) is zero: the kinetic magnitude
  \<open>mu * massTable * gravity\<close> is then 0, the signed friction is 0 in both directions and
  the two accelerations are equal.
\<close>

theorem zero_normal_force_no_friction_counterexample:
  "frictionEnabled \<lparr>massTableKg = 0, massHangingKg = 1, mu = 1 / 2, frictionEnabled = True,
      gravity = 10, velocityMps = 1\<rparr> \<and>
   (0 :: real) < 1 / 2 \<and> VELOCITY_EPSILON < 1 \<and>
   \<not> frictionSignedN (resolveDynamicForces \<lparr>massTableKg = 0, massHangingKg = 1,
      mu = 1 / 2, frictionEnabled = True, gravity = 10, velocityMps = 1\<rparr>) < 0 \<and>
   \<not> accelerationMps2 (resolveDynamicForces \<lparr>massTableKg = 0, massHangingKg = 1,
      mu = 1 / 2, frictionEnabled = True, gravity = 10, velocityMps = 1\<rparr>)
     < accelerationMps2 (resolveDynamicForces \<lparr>massTableKg = 0, massHangingKg = 1,
      mu = 1 / 2, frictionEnabled = True, gravity = 10, velocityMps = - 1\<rparr>)"
  by (simp add: resolveDynamicForces_def Let_def VELOCITY_EPSILON_def)

text \<open>
  Claim C4, amended: for positive table mass and positive gravity, any hanging mass,
  \<open>mu > 0\<close>, friction enabled and \<open>v > VELOCITY_EPSILON\<close>, \<open>resolveDynamicForces\<close> with
  \<open>velocityMps = +v\<close> returns negative signed friction and mode \<open>kinetic\<close>, with
  \<open>velocityMps = -v\<close> positive signed friction and mode \<open>kinetic\<close>, and the acceleration
  of the \<open>-v\<close> run is strictly greater than that of the \<open>+v\<close> run. The signed friction
  is \<open>-sign(velocity) * (mu * massTable * gravity)\<close> and the net force is
  \<open>driveForce + frictionSigned\<close>.
\<close>

theorem kinetic_friction_opposes_velocity:
  "frictionEnabled input \<Longrightarrow> 0 < mu input \<Longrightarrow> 0 < massTableKg input \<Longrightarrow>
   0 < gravity input \<Longrightarrow> VELOCITY_EPSILON < v \<Longrightarrow>
   (let kineticMagnitude = mu input * massTableKg input * gravity input;
        right = resolveDynamicForces (input\<lparr>velocityMps := v\<rparr>);
        left = resolveDynamicForces (input\<lparr>velocityMps := - v\<rparr>)
    in frictionSignedN right < 0 \<and> mode right = Kinetic \<and>
       frictionSignedN left > 0 \<and> mode left = Kinetic \<and>
       accelerationMps2 left > accelerationMps2 right \<and>
       frictionSignedN right = - kineticMagnitude \<and>
       frictionSignedN left = kineticMagnitude \<and>
       netForceN right = driveForceN right + frictionSignedN right \<and>
       netForceN left = driveForceN left + frictionSignedN left)"
  by (auto simp add: resolveDynamicForces_def Let_def max_def VELOCITY_EPSILON_def
      divide_strict_right_mono add_pos_nonneg)

theorem kinetic_friction_opposes_velocity_witness:
  "frictionEnabled \<lparr>massTableKg = 4, massHangingKg = 2, mu = 1 / 4, frictionEnabled = True,
      gravity = 10, velocityMps = 0\<rparr> \<and>
   VELOCITY_EPSILON < 14 / 10 \<and>
   frictionSignedN (resolveDynamicForces \<lparr>massTableKg = 4, massHangingKg = 2, mu = 1 / 4,
      frictionEnabled = True, gravity = 10, velocityMps = 14 / 10\<rparr>) = - 10 \<and>
   frictionSignedN (resolveDynamicForces \<lparr>massTableKg = 4, massHangingKg = 2, mu = 1 / 4,
      frictionEnabled = True, gravity = 10, velocityMps = - 14 / 10\<rparr>) = 10 \<and>
   accelerationMps2 (resolveDynamicForces \<lparr>massTableKg = 4, massHangingKg = 2, mu = 1 / 4,
      frictionEnabled = True, gravity = 10, velocityMps = 14 / 10\<rparr>)
     < accelerationMps2 (resolveDynamicForces \<lparr>massTableKg = 4, massHangingKg = 2,
      mu = 1 / 4, frictionEnabled = True, gravity = 10, velocityMps = - 14 / 10\<rparr>)"
  using kinetic_friction_opposes_velocity
    [of "\<lparr>massTableKg = 4, massHangingKg = 2, mu = 1 / 4, frictionEnabled = True,
      gravity = 10, velocityMps = 0\<rparr>" "14 / 10"]
  by (simp add: VELOCITY_EPSILON_def Let_def)

section \<open>Half-Atwood solver: clamping, time to target, Newton's second law\<close>

text \<open>
  Claim C8. Both solvers clamp \<open>massTableKg\<close>, \<open>massHangingKg\<close>, \<open>gravity\<close> and \<open>mu\<close>
  (the from-rest solver also \<open>targetDistanceM\<close>) to \<open>\<ge> 0\<close> before any use and return a
  result for every input: the result on an input equals the result on the input with
  those fields replaced by \<open>max(0, field)\<close>. The velocity is not among the clamped
  fields: it is left as it is, and a leftward velocity gives another result than the
  same velocity floored to zero.
\<close>

theorem solvers_clamp_inputs:
  "calculateHalfAtwoodFromRest (clampRest input) = calculateHalfAtwoodFromRest input \<and>
   resolveDynamicForces (clampDynamic dinput) = resolveDynamicForces dinput \<and>
   velocityMps (clampDynamic dinput) = velocityMps dinput \<and>
   resolveDynamicForces
     \<lparr>massTableKg = 4, massHangingKg = 2, mu = 1 / 4, frictionEnabled = True,
      gravity = 10, velocityMps = max 0 (- 14 / 10)\<rparr>
   \<noteq> resolveDynamicForces
     \<lparr>massTableKg = 4, massHangingKg = 2, mu = 1 / 4, frictionEnabled = True,
      gravity = 10, velocityMps = - 14 / 10\<rparr>"
  by (simp add: calculateHalfAtwoodFromRest_def resolveDynamicForces_def clampRest_def
      clampDynamic_def Let_def VELOCITY_EPSILON_def)

theorem solvers_clamp_inputs_witness:
  "calculateHalfAtwoodFromRest
     \<lparr>massTableKg = 0, massHangingKg = 1, mu = 0, frictionEnabled = True,
      gravity = 10, targetDistanceM = 0\<rparr>
   = calculateHalfAtwoodFromRest
     \<lparr>massTableKg = - 3, massHangingKg = 1, mu = - 1 / 2, frictionEnabled = True,
      gravity = 10, targetDistanceM = - 2\<rparr> \<and>
   resolveDynamicForces
     \<lparr>massTableKg = 2, massHangingKg = 0, mu = 1 / 2, frictionEnabled = True,
      gravity = 0, velocityMps = - 1\<rparr>
   = resolveDynamicForces
     \<lparr>massTableKg = 2, massHangingKg = - 1, mu = 1 / 2, frictionEnabled = True,
      gravity = - 10, velocityMps = - 1\<rparr>"
  using solvers_clamp_inputs
    [of "\<lparr>massTableKg = - 3, massHangingKg = 1, mu = - 1 / 2, frictionEnabled = True,
      gravity = 10, targetDistanceM = - 2\<rparr>"
     "\<lparr>massTableKg = 2, massHangingKg = - 1, mu = 1 / 2, frictionEnabled = True,
      gravity = - 10, velocityMps = - 1\<rparr>"]
  by (simp add: clampRest_def clampDynamic_def)

text \<open>
  Claim C9. In every result of \<open>calculateHalfAtwoodFromRest\<close>, \<open>timeToTargetS\<close> is
  non-null exactly when the computed acceleration is positive and the clamped target
  distance is positive, and then it is \<open>sqrt(2 * targetDistance / acceleration)\<close>; it is
  null otherwise, in particular in every \<open>static_hold\<close> result and for zero total mass.
  \<open>moved\<close> is true exactly when the acceleration is positive.
\<close>

theorem time_to_target_defined_iff_moving:
  "(let r = calculateHalfAtwoodFromRest input;
        targetDistance = max 0 (targetDistanceM input)
    in (timeToTargetS r \<noteq> None) = (0 < accelerationMps2 r \<and> 0 < targetDistance) \<and>
       (0 < accelerationMps2 r \<and> 0 < targetDistance \<longrightarrow>
          timeToTargetS r = Some (sqrt (2 * targetDistance / accelerationMps2 r))) \<and>
       (mode r = Static_hold \<longrightarrow> timeToTargetS r = None) \<and>
       (max 0 (massTableKg input) + max 0 (massHangingKg input) \<le> 0 \<longrightarrow>
          timeToTargetS r = None) \<and>
       moved r = (0 < accelerationMps2 r))"
proof -
  define mT where "mT = max 0 (massTableKg input)"
  define mH where "mH = max 0 (massHangingKg input)"
  define g where "g = max 0 (gravity input)"
  define m where "m = max 0 (mu input)"
  define td where "td = max 0 (targetDistanceM input)"
  define a1 where "a1 = mH * g / (mT + mH)"
  define a2 where "a2 = (mH * g - m * mT * g) / (mT + mH)"
  show ?thesis
    unfolding calculateHalfAtwoodFromRest_def Let_def mT_def [symmetric] mH_def [symmetric]
      g_def [symmetric] m_def [symmetric] td_def [symmetric] a1_def [symmetric]
      a2_def [symmetric]
    by (simp split: if_splits)
qed

theorem time_to_target_defined_iff_moving_witness:
  "timeToTargetS (calculateHalfAtwoodFromRest
     \<lparr>massTableKg = 1, massHangingKg = 1, mu = 0, frictionEnabled = False,
      gravity = 8, targetDistanceM = 2\<rparr>) = Some 1 \<and>
   moved (calculateHalfAtwoodFromRest
     \<lparr>massTableKg = 1, massHangingKg = 1, mu = 0, frictionEnabled = False,
      gravity = 8, targetDistanceM = 2\<rparr>)"
proof -
  have acc: "accelerationMps2 (calculateHalfAtwoodFromRest
     \<lparr>massTableKg = 1, massHangingKg = 1, mu = 0, frictionEnabled = False,
      gravity = 8, targetDistanceM = 2\<rparr>) = 4"
    by (simp add: calculateHalfAtwoodFromRest_def Let_def)
  show ?thesis
    using time_to_target_defined_iff_moving
      [of "\<lparr>massTableKg = 1, massHangingKg = 1, mu = 0, frictionEnabled = False,
        gravity = 8, targetDistanceM = 2\<rparr>"]
    by (simp add: Let_def acc)
qed

lemma rest_newton:
  "netForceN (calculateHalfAtwoodFromRest input)
     = (max 0 (massTableKg input) + max 0 (massHangingKg input))
       * accelerationMps2 (calculateHalfAtwoodFromRest input) \<and>
   tensionN (calculateHalfAtwoodFromRest input)
     = max 0 (massHangingKg input)
       * (max 0 (gravity input) - accelerationMps2 (calculateHalfAtwoodFromRest input))"
proof -
  define mT where "mT = max 0 (massTableKg input)"
  define mH where "mH = max 0 (massHangingKg input)"
  have nonneg: "0 \<le> mT" "0 \<le> mH"
    by (simp_all add: mT_def mH_def)
  have zero: "mH = 0" if "mT + mH \<le> 0"
    using that nonneg by simp
  show ?thesis
    unfolding calculateHalfAtwoodFromRest_def Let_def mT_def [symmetric] mH_def [symmetric]
    using zero by simp
qed

lemma dynamic_newton:
  "netForceN (resolveDynamicForces input)
     = (max 0 (massTableKg input) + max 0 (massHangingKg input))
       * accelerationMps2 (resolveDynamicForces input) \<and>
   tensionN (resolveDynamicForces input)
     = max 0 (massHangingKg input)
       * (max 0 (gravity input) - accelerationMps2 (resolveDynamicForces input))"
proof -
  define mT where "mT = max 0 (massTableKg input)"
  define mH where "mH = max 0 (massHangingKg input)"
  have nonneg: "0 \<le> mT" "0 \<le> mH"
    by (simp_all add: mT_def mH_def)
  have zero: "mH = 0" if "mT + mH \<le> 0"
    using that nonneg by simp
  show ?thesis
    unfolding resolveDynamicForces_def Let_def mT_def [symmetric] mH_def [symmetric]
    using zero by simp
qed

lemma dynamic_friction_magnitude:
  "frictionMagnitudeN (resolveDynamicForces input) = \<bar>frictionSignedN (resolveDynamicForces input)\<bar>"
proof -
  define drive where "drive = max 0 (massHangingKg input) * max 0 (gravity input)"
  define k where "k = max 0 (mu input) * max 0 (massTableKg input) * max 0 (gravity input)"
  have nonneg: "0 \<le> drive" "0 \<le> k"
    by (simp_all add: drive_def k_def)
  show ?thesis
    unfolding resolveDynamicForces_def Let_def drive_def [symmetric] k_def [symmetric]
    using nonneg by simp
qed

text \<open>
  Claim C10. Every result of both solvers, in every branch, satisfies
  \<open>netForceN = (massTable + massHanging) * accelerationMps2\<close> and
  \<open>tensionN = massHanging * (gravity - accelerationMps2)\<close> on the clamped masses and
  gravity; every result of \<open>resolveDynamicForces\<close> also satisfies
  \<open>frictionMagnitudeN = |frictionSignedN|\<close>.
\<close>

theorem newton_consistency:
  "(let r = calculateHalfAtwoodFromRest input
    in netForceN r
         = (max 0 (massTableKg input) + max 0 (massHangingKg input)) * accelerationMps2 r \<and>
       tensionN r
         = max 0 (massHangingKg input) * (max 0 (gravity input) - accelerationMps2 r)) \<and>
   (let r = resolveDynamicForces dinput
    in netForceN r
         = (max 0 (massTableKg dinput) + max 0 (massHangingKg dinput)) * accelerationMps2 r \<and>
       tensionN r
         = max 0 (massHangingKg dinput) * (max 0 (gravity dinput) - accelerationMps2 r) \<and>
       frictionMagnitudeN r = \<bar>frictionSignedN r\<bar>)"
  unfolding Let_def
  using rest_newton [of input] dynamic_newton [of dinput] dynamic_friction_magnitude [of dinput]
  by blast

theorem newton_consistency_witness:
  "netForceN (resolveDynamicForces \<lparr>massTableKg = 4, massHangingKg = 2, mu = 1 / 4,
      frictionEnabled = True, gravity = 10, velocityMps = 14 / 10\<rparr>)
   = (4 + 2) * accelerationMps2 (resolveDynamicForces \<lparr>massTableKg = 4, massHangingKg = 2,
      mu = 1 / 4, frictionEnabled = True, gravity = 10, velocityMps = 14 / 10\<rparr>) \<and>
   netForceN (calculateHalfAtwoodFromRest \<lparr>massTableKg = 2, massHangingKg = 1, mu = 1 / 10,
      frictionEnabled = True, gravity = 10, targetDistanceM = 1\<rparr>)
   = (2 + 1) * accelerationMps2 (calculateHalfAtwoodFromRest \<lparr>massTableKg = 2,
      massHangingKg = 1, mu = 1 / 10, frictionEnabled = True, gravity = 10,
      targetDistanceM = 1\<rparr>)"
  using newton_consistency
    [of "\<lparr>massTableKg = 2, massHangingKg = 1, mu = 1 / 10, frictionEnabled = True,
      gravity = 10, targetDistanceM = 1\<rparr>"
     "\<lparr>massTableKg = 4, massHangingKg = 2, mu = 1 / 4, frictionEnabled = True,
      gravity = 10, velocityMps = 14 / 10\<rparr>"]
  by (simp add: Let_def)

section \<open>Resonance solver\<close>

text \<open>
  Claim C5. For frequency \<open>f > 0\<close>, speed \<open>s > 0\<close> and tube diameter \<open>d \<ge> 0\<close>, the air
  length of the first harmonic is the finite number \<open>s / (4 * f) - 0.3 * d\<close>, and
  \<open>inferredSpeedMps\<close> at that length, with the same \<open>f\<close> and \<open>d\<close>, returns \<open>s\<close>:
  \<open>inferredSpeedMps\<close> is \<open>4 * f * (airLength + 0.3 * d)\<close>, the inverse of the length
  formula.
\<close>

theorem length_speed_round_trip:
  "0 < f \<Longrightarrow> 0 < s \<Longrightarrow> 0 \<le> d \<Longrightarrow>
   firstHarmonicAirLengthM f s d = Fin (s / (4 * f) - 3 / 10 * d) \<and>
   inferredSpeedMps f (s / (4 * f) - 3 / 10 * d) d = s \<and>
   inferredSpeedMps f a d = 4 * f * (a + 3 / 10 * d)"
  by (simp add: firstHarmonicAirLengthM_def inferredSpeedMps_def js_div_def
      END_CORRECTION_FACTOR_def)

theorem length_speed_round_trip_witness:
  "(0 :: real) < 384 \<and> (0 :: real) < 343 \<and> (0 :: real) \<le> 4 / 100 \<and>
   firstHarmonicAirLengthM 384 343 (4 / 100) = Fin (343 / 1536 - 12 / 1000) \<and>
   inferredSpeedMps 384 (343 / 1536 - 12 / 1000) (4 / 100) = 343"
  using length_speed_round_trip [of 384 343 "4 / 100" 0]
  by simp

text \<open>
  Claim C6, as stated: the strength always lies in the half-open interval \<open>(0, 1]\<close> and
  strictly decreases as \<open>|airLength - target|\<close> increases. The strength does reach 0:
  for a supplied bandwidth of 0 the exponent off the target is \<open>-delta\<^sup>2 / 0 = -Infinity\<close>
  and \<open>Math.exp(-Infinity)\<close> is 0, at every distance from the target, whatever the
  engine's approximation of the exponential.
\<close>

theorem zero_bandwidth_strength_counterexample:
  "resonanceStrength exp 1 0 (Some 0) = Fin 0 \<and> resonanceStrength exp 2 0 (Some 0) = Fin 0"
  by (simp add: resonanceStrength_def js_div_def)

lemma square_le_of_abs_le:
  fixes x y :: real
  assumes "\<bar>x\<bar> \<le> \<bar>y\<bar>"
  shows "x * x \<le> y * y"
proof -
  have "\<bar>x\<bar> * \<bar>x\<bar> \<le> \<bar>y\<bar> * \<bar>y\<bar>"
    using assms by (intro mult_mono) simp_all
  then show ?thesis by simp
qed

text \<open>
  Claim C6, amended to the range the code documents (\<open>Returns 0..1\<close>):
  \<open>resonanceStrength\<close> returns \<open>Math.exp(-(airLength - target)\<^sup>2 / (2 * bandwidth\<^sup>2))\<close>,
  with bandwidth \<open>max(0.008, target * 0.06)\<close>, which is never 0, when \<open>bandwidthM\<close> is
  not supplied. For every target, provided \<open>Math.exp\<close> is monotone, non-negative and 1
  at 0: the strength is exactly 1 at \<open>airLengthM = targetLengthM\<close> when the bandwidth is
  not 0; wherever it is a number, that is everywhere but at the target with bandwidth 0,
  it lies in the closed interval \<open>[0, 1]\<close>; and it never increases as
  \<open>|airLength - target|\<close> increases. Nothing is said of the strength at the target with
  bandwidth 0.
\<close>

theorem resonance_strength_closed_range:
  "\<forall>x y. x \<le> y \<longrightarrow> approx x \<le> approx y \<Longrightarrow> \<forall>x. 0 \<le> approx x \<Longrightarrow> approx 0 = 1 \<Longrightarrow>
   (let b = (case bw of Some b \<Rightarrow> b | None \<Rightarrow> max (8 / 1000) (t * (6 / 100)))
    in (bw = None \<longrightarrow> b \<noteq> 0) \<and>
       (b \<noteq> 0 \<longrightarrow>
          resonanceStrength approx t t bw = Fin 1 \<and>
          (\<forall>a. resonanceStrength approx a t bw
                 = Fin (approx (- ((a - t) * (a - t)) / (2 * b * b))))) \<and>
       (\<forall>a. a \<noteq> t \<or> b \<noteq> 0 \<longrightarrow>
          (\<exists>s. resonanceStrength approx a t bw = Fin s \<and> 0 \<le> s \<and> s \<le> 1)) \<and>
       (\<forall>a1 a2 s1 s2. \<bar>a1 - t\<bar> \<le> \<bar>a2 - t\<bar> \<and> resonanceStrength approx a1 t bw = Fin s1 \<and>
           resonanceStrength approx a2 t bw = Fin s2 \<longrightarrow> s2 \<le> s1))"
proof -
  assume mono: "\<forall>x y. x \<le> y \<longrightarrow> approx x \<le> approx y"
    and nonneg: "\<forall>x. 0 \<le> approx x"
    and zero: "approx 0 = 1"
  define b where "b = (case bw of Some b \<Rightarrow> b | None \<Rightarrow> max (8 / 1000) (t * (6 / 100)))"
  have le_one: "approx x \<le> 1" if "x \<le> 0" for x
    using mono that zero by metis
  have default: "b \<noteq> 0" if "bw = None"
    using that by (simp add: b_def max_def)
  have eq: "resonanceStrength approx a t bw
      = Fin (approx (- ((a - t) * (a - t)) / (2 * b * b)))" if "b \<noteq> 0" for a
    using that by (simp add: resonanceStrength_def js_div_def b_def Let_def)
  have eq0: "resonanceStrength approx a t bw = Fin 0" if "b = 0" "a \<noteq> t" for a
    using that by (simp add: resonanceStrength_def js_div_def b_def [symmetric] Let_def)
  have nan: "resonanceStrength approx t t bw = NaN" if "b = 0"
    using that by (simp add: resonanceStrength_def js_div_def b_def [symmetric] Let_def)
  have at_target: "resonanceStrength approx t t bw = Fin 1" if "b \<noteq> 0"
    using eq [OF that, of t] zero by simp
  have range: "\<exists>s. resonanceStrength approx a t bw = Fin s \<and> 0 \<le> s \<and> s \<le> 1"
    if "a \<noteq> t \<or> b \<noteq> 0" for a
  proof (cases "b = 0")
    case True
    with that show ?thesis by (simp add: eq0)
  next
    case False
    then have "0 < 2 * b * b"
      by (auto simp add: zero_less_mult_iff)
    then have "- ((a - t) * (a - t)) / (2 * b * b) \<le> 0"
      by (simp add: divide_nonpos_pos)
    then have "approx (- ((a - t) * (a - t)) / (2 * b * b)) \<le> 1"
      by (rule le_one)
    with False nonneg show ?thesis by (simp add: eq)
  qed
  have decreasing: "s2 \<le> s1"
    if "\<bar>a1 - t\<bar> \<le> \<bar>a2 - t\<bar>" "resonanceStrength approx a1 t bw = Fin s1"
      "resonanceStrength approx a2 t bw = Fin s2" for a1 a2 s1 s2
  proof (cases "b = 0")
    case True
    with that(2) nan have "a1 \<noteq> t" by auto
    moreover from this that(1) have "a2 \<noteq> t" by auto
    ultimately show ?thesis
      using True that(2,3) by (simp add: eq0)
  next
    case False
    then have pos: "0 < 2 * b * b"
      by (auto simp add: zero_less_mult_iff)
    have "(a1 - t) * (a1 - t) \<le> (a2 - t) * (a2 - t)"
      using that(1) by (rule square_le_of_abs_le)
    then have "- ((a2 - t) * (a2 - t)) / (2 * b * b) \<le> - ((a1 - t) * (a1 - t)) / (2 * b * b)"
      using pos by (simp add: divide_right_mono)
    then have "approx (- ((a2 - t) * (a2 - t)) / (2 * b * b))
        \<le> approx (- ((a1 - t) * (a1 - t)) / (2 * b * b))"
      using mono by blast
    with that(2,3) False show ?thesis by (simp add: eq)
  qed
  show ?thesis
    unfolding Let_def b_def [symmetric]
    using default at_target eq range decreasing by blast
qed

theorem resonance_strength_closed_range_witness:
  "resonanceStrength (\<lambda>x. if x < - 745 then 0 else exp x) (21 / 100) (21 / 100) None = Fin 1 \<and>
   resonanceStrength (\<lambda>x. if x < - 745 then 0 else exp x) 1 (21 / 100) None = Fin 0 \<and>
   resonanceStrength (\<lambda>x. if x < - 745 then 0 else exp x) (66 / 100) (21 / 100)
     (Some (1155 / 100000)) = Fin 0"
proof -
  have mono: "\<forall>x y :: real. x \<le> y \<longrightarrow>
      (if x < - 745 then 0 else exp x) \<le> (if y < - 745 then 0 else exp y)"
    by simp
  have nonneg: "\<forall>x :: real. 0 \<le> (if x < - 745 then 0 else exp x)"
    by simp
  have zero: "(if (0 :: real) < - 745 then 0 else exp 0) = (1 :: real)"
    by simp
  have at_target:
    "resonanceStrength (\<lambda>x. if x < - 745 then 0 else exp x) (21 / 100) (21 / 100) None = Fin 1"
    using resonance_strength_closed_range
      [where approx = "\<lambda>x. if x < - 745 then 0 else exp x" and bw = None
        and t = "21 / 100", OF mono nonneg zero]
    by (simp add: Let_def)
  have underflow:
    "resonanceStrength (\<lambda>x. if x < - 745 then 0 else exp x) 1 (21 / 100) None = Fin 0"
    "resonanceStrength (\<lambda>x. if x < - 745 then 0 else exp x) (66 / 100) (21 / 100)
       (Some (1155 / 100000)) = Fin 0"
    by (simp_all add: resonanceStrength_def js_div_def Let_def)
  from at_target underflow show ?thesis by simp
qed

text \<open>
  Claim C7. \<open>qualityBand\<close> returns label \<open>High\<close> with \<open>accepted = true\<close> exactly when
  \<open>strength \<ge> 0.94\<close>, label \<open>Fair\<close> with \<open>accepted = false\<close> exactly when
  \<open>0.8 \<le> strength < 0.94\<close>, and label \<open>Off peak\<close> with \<open>accepted = false\<close> otherwise;
  so \<open>qualityBand(0.95)\<close> is accepted, \<open>qualityBand(0.85)\<close> is not, and
  \<open>qualityBand(0.4)\<close> has label \<open>Off peak\<close>.
\<close>

theorem quality_band_thresholds:
  "((label (qualityBand s) = ''High'' \<and> accepted (qualityBand s)) = (94 / 100 \<le> s)) \<and>
   ((label (qualityBand s) = ''Fair'' \<and> \<not> accepted (qualityBand s))
      = (8 / 10 \<le> s \<and> s < 94 / 100)) \<and>
   ((label (qualityBand s) = ''Off peak'' \<and> \<not> accepted (qualityBand s)) = (s < 8 / 10)) \<and>
   accepted (qualityBand (95 / 100)) \<and> \<not> accepted (qualityBand (85 / 100)) \<and>
   label (qualityBand (4 / 10)) = ''Off peak''"
  by (auto simp add: qualityBand_def)

theorem quality_band_thresholds_witness:
  "label (qualityBand (94 / 100)) = ''High'' \<and> accepted (qualityBand (94 / 100))"
  using quality_band_thresholds [of "94 / 100"]
  by simp

end
